theory Spec2Isabelle
  imports Complex_Main "HOL-Library.Multiset"
begin

section \<open>Text\<close>

text \<open>
  A Python \<open>str\<close> is modelled as a \<open>string\<close>: a list of 8-bit characters, each read as
  the code point of the same number (U+0000 to U+00FF).  The character classes below are
  the ones Python 3 uses for \<open>str.isspace\<close>, \<open>\s\<close>, \<open>\d\<close>, \<open>\w\<close> and \<open>str.lower\<close>,
  cut down to this range.  Text with code points from U+0100 on (the Arabic headers of the
  parser) is outside the model.
\<close>

definition code :: "char \<Rightarrow> nat" where
  "code c = of_char c"

definition is_space :: "char \<Rightarrow> bool" where
  "is_space c = (let n = code c in (9 \<le> n \<and> n \<le> 13) \<or> (28 \<le> n \<and> n \<le> 32) \<or> n = 133 \<or> n = 160)"

definition is_digit :: "char \<Rightarrow> bool" where
  "is_digit c = (let n = code c in 48 \<le> n \<and> n \<le> 57)"

definition is_ascii_upper :: "char \<Rightarrow> bool" where
  "is_ascii_upper c = (let n = code c in 65 \<le> n \<and> n \<le> 90)"

definition is_ascii_lower :: "char \<Rightarrow> bool" where
  "is_ascii_lower c = (let n = code c in 97 \<le> n \<and> n \<le> 122)"

definition is_ascii_letter :: "char \<Rightarrow> bool" where
  "is_ascii_letter c = (is_ascii_upper c \<or> is_ascii_lower c)"

definition is_word :: "char \<Rightarrow> bool" where
  "is_word c = (let n = code c in
     is_ascii_letter c \<or> is_digit c \<or> n = 95 \<or>
     n = 170 \<or> n = 178 \<or> n = 179 \<or> n = 181 \<or> n = 185 \<or> n = 186 \<or>
     (188 \<le> n \<and> n \<le> 190) \<or> (192 \<le> n \<and> n \<noteq> 215 \<and> n \<noteq> 247))"

definition lower_ch :: "char \<Rightarrow> char" where
  "lower_ch c = (let n = code c in
     if (65 \<le> n \<and> n \<le> 90) \<or> (192 \<le> n \<and> n \<le> 222 \<and> n \<noteq> 215) then char_of (n + 32) else c)"

definition lower :: "string \<Rightarrow> string" where
  "lower s = map lower_ch s"

definition newline :: char where
  "newline = CHR 0x0A"

text \<open>\<open>k in s\<close> on strings: \<open>k\<close> occurs in \<open>s\<close> as a contiguous run.\<close>

fun starts_with :: "string \<Rightarrow> string \<Rightarrow> bool" where
  "starts_with [] s = True"
| "starts_with (k # ks) [] = False"
| "starts_with (k # ks) (x # xs) = (k = x \<and> starts_with ks xs)"

fun contains :: "string \<Rightarrow> string \<Rightarrow> bool" where
  "contains k [] = (k = [])"
| "contains k (x # xs) = (starts_with k (x # xs) \<or> contains k xs)"

text \<open>\<open>s.strip()\<close>, \<open>s.split()\<close> (runs of white space separate, no empty piece) and
  \<open>s.split(c)\<close> (every occurrence separates, empty pieces kept).\<close>

definition strip :: "string \<Rightarrow> string" where
  "strip s = rev (dropWhile is_space (rev (dropWhile is_space s)))"

fun split_ws_acc :: "string \<Rightarrow> string \<Rightarrow> string list" where
  "split_ws_acc cur [] = (if cur = [] then [] else [cur])"
| "split_ws_acc cur (x # xs) =
     (if is_space x then (if cur = [] then split_ws_acc [] xs else cur # split_ws_acc [] xs)
      else split_ws_acc (cur @ [x]) xs)"

definition split_ws :: "string \<Rightarrow> string list" where
  "split_ws s = split_ws_acc [] s"

fun split_char_acc :: "char \<Rightarrow> string \<Rightarrow> string \<Rightarrow> string list" where
  "split_char_acc d cur [] = [cur]"
| "split_char_acc d cur (x # xs) =
     (if x = d then cur # split_char_acc d [] xs else split_char_acc d (cur @ [x]) xs)"

definition split_char :: "char \<Rightarrow> string \<Rightarrow> string list" where
  "split_char d s = split_char_acc d [] s"

definition join :: "string \<Rightarrow> string list \<Rightarrow> string" where
  "join sep parts = (case parts of [] \<Rightarrow> [] | p # ps \<Rightarrow> p @ concat (map (\<lambda>q. sep @ q) ps))"

text \<open>A slice \<open>xs[:n]\<close> with Python's reading of a negative bound.\<close>

definition slice_to :: "'a list \<Rightarrow> int \<Rightarrow> 'a list" where
  "slice_to xs n = (if 0 \<le> n then take (nat n) xs else take (length xs - nat (- n)) xs)"

section \<open>Regular expressions\<close>

text \<open>
  The patterns of the program are written in the syntax below and run by a backtracking
  matcher with the priorities of Python's \<open>re\<close>: the left alternative first, a greedy
  repetition longest first, a lazy one shortest first.  Repetition is over a character
  class, which is all the program's patterns need.  The flags are written into the pattern:
  under IGNORECASE a literal is \<open>liti\<close> and \<open>[A-Z]\<close> is every letter, under DOTALL \<open>.\<close>
  is \<open>anych\<close>.
\<close>

datatype regex =
    Cls "char \<Rightarrow> bool"
  | Eps
  | Seq regex regex
  | Alt regex regex
  | Opt regex
  | Rep nat "char \<Rightarrow> bool"
  | Lazy "char \<Rightarrow> bool"
  | Grp nat regex
  | Ahead regex
  | Wordb
  | Eos

text \<open>A matcher state: the text consumed so far (reversed), the text ahead, the groups.\<close>

type_synonym mstate = "string \<times> string \<times> (nat \<times> string) list"

definition advance :: "nat \<Rightarrow> mstate \<Rightarrow> mstate" where
  "advance i st = (case st of (c, r, g) \<Rightarrow> (rev (take i r) @ c, drop i r, g))"

primrec try_down :: "(mstate \<Rightarrow> mstate option) \<Rightarrow> mstate \<Rightarrow> nat \<Rightarrow> nat \<Rightarrow> mstate option" where
  "try_down k st lo 0 = (if lo = 0 then k st else None)"
| "try_down k st lo (Suc i) =
     (if Suc i < lo then None
      else case k (advance (Suc i) st) of Some m \<Rightarrow> Some m | None \<Rightarrow> try_down k st lo i)"

primrec try_up :: "(mstate \<Rightarrow> mstate option) \<Rightarrow> mstate \<Rightarrow> nat \<Rightarrow> nat \<Rightarrow> mstate option" where
  "try_up k st hi 0 = k (advance hi st)"
| "try_up k st hi (Suc j) =
     (case k (advance (hi - Suc j) st) of Some m \<Rightarrow> Some m | None \<Rightarrow> try_up k st hi j)"

definition run_length :: "(char \<Rightarrow> bool) \<Rightarrow> mstate \<Rightarrow> nat" where
  "run_length p st = (case st of (c, r, g) \<Rightarrow> length (takeWhile p r))"

definition word_before :: "mstate \<Rightarrow> bool" where
  "word_before st = (case st of (c, r, g) \<Rightarrow> (case c of [] \<Rightarrow> False | x # _ \<Rightarrow> is_word x))"

definition word_after :: "mstate \<Rightarrow> bool" where
  "word_after st = (case st of (c, r, g) \<Rightarrow> (case r of [] \<Rightarrow> False | x # _ \<Rightarrow> is_word x))"

definition at_end :: "mstate \<Rightarrow> bool" where
  "at_end st = (case st of (c, r, g) \<Rightarrow> r = [] \<or> r = [newline])"

definition set_group :: "nat \<Rightarrow> mstate \<Rightarrow> mstate \<Rightarrow> mstate" where
  "set_group n st0 st = (case st0 of (c0, r0, g0) \<Rightarrow> (case st of (c, r, g) \<Rightarrow>
     (c, r, (n, rev (take (length c - length c0) c)) # g)))"

definition step_class :: "(char \<Rightarrow> bool) \<Rightarrow> (mstate \<Rightarrow> mstate option) \<Rightarrow> mstate \<Rightarrow> mstate option" where
  "step_class p k st = (case st of (c, r, g) \<Rightarrow>
     (case r of [] \<Rightarrow> None | x # xs \<Rightarrow> if p x then k (x # c, xs, g) else None))"

primrec rmatch :: "regex \<Rightarrow> (mstate \<Rightarrow> mstate option) \<Rightarrow> mstate \<Rightarrow> mstate option" where
  "rmatch (Cls p) k st = step_class p k st"
| "rmatch Eps k st = k st"
| "rmatch (Seq a b) k st = rmatch a (rmatch b k) st"
| "rmatch (Alt a b) k st = (case rmatch a k st of Some m \<Rightarrow> Some m | None \<Rightarrow> rmatch b k st)"
| "rmatch (Opt a) k st = (case rmatch a k st of Some m \<Rightarrow> Some m | None \<Rightarrow> k st)"
| "rmatch (Rep n p) k st = try_down k st n (run_length p st)"
| "rmatch (Lazy p) k st = try_up k st (run_length p st) (run_length p st)"
| "rmatch (Grp n a) k st = rmatch a (\<lambda>st'. k (set_group n st st')) st"
| "rmatch (Ahead a) k st = (case rmatch a Some st of Some m \<Rightarrow> k st | None \<Rightarrow> None)"
| "rmatch Wordb k st = (if word_before st \<noteq> word_after st then k st else None)"
| "rmatch Eos k st = (if at_end st then k st else None)"

text \<open>A match object: the text before the match, the match, the text after it, the groups.\<close>

record rematch =
  pre :: string
  matched :: string
  post :: string
  groups :: "(nat \<times> string) list"

definition group :: "rematch \<Rightarrow> nat \<Rightarrow> string option" where
  "group m n = map_of (groups m) n"

definition match_here :: "regex \<Rightarrow> string \<Rightarrow> string \<Rightarrow> rematch option" where
  "match_here re c r = (case rmatch re Some (c, r, []) of
       None \<Rightarrow> None
     | Some (c', r', g) \<Rightarrow>
         Some \<lparr>pre = rev c, matched = rev (take (length c' - length c) c'), post = r', groups = g\<rparr>)"

fun search_from :: "regex \<Rightarrow> string \<Rightarrow> string \<Rightarrow> rematch option" where
  "search_from re c [] = match_here re c []"
| "search_from re c (x # xs) =
     (case match_here re c (x # xs) of Some m \<Rightarrow> Some m | None \<Rightarrow> search_from re (x # c) xs)"

definition re_search :: "regex \<Rightarrow> string \<Rightarrow> rematch option" where
  "re_search re s = search_from re [] s"

text \<open>
  \<open>re.findall\<close> and \<open>re.split\<close> for a pattern without groups: the matches from left to
  right, each search starting where the last match ended.  Every pattern the program gives
  them consumes at least one character; the branch for a match that consumes nothing ends
  the scan.
\<close>

function findall_from :: "regex \<Rightarrow> string \<Rightarrow> string \<Rightarrow> string list" where
  "findall_from re c r =
     (case search_from re c r of
        None \<Rightarrow> []
      | Some m \<Rightarrow>
          if length (post m) < length r
          then matched m # findall_from re (rev (matched m) @ rev (pre m)) (post m)
          else [matched m])"
  by pat_completeness auto
termination
  by (relation "measure (\<lambda>(re, c, r). length r)") auto

declare findall_from.simps [simp del]

definition re_findall :: "regex \<Rightarrow> string \<Rightarrow> string list" where
  "re_findall re s = findall_from re [] s"

function split_from :: "regex \<Rightarrow> string \<Rightarrow> string \<Rightarrow> string list" where
  "split_from re c r =
     (case search_from re c r of
        None \<Rightarrow> [r]
      | Some m \<Rightarrow>
          if length (post m) < length r
          then drop (length c) (pre m) # split_from re (rev (matched m) @ rev (pre m)) (post m)
          else [r])"
  by pat_completeness auto
termination
  by (relation "measure (\<lambda>(re, c, r). length r)") auto

declare split_from.simps [simp del]

definition re_split :: "regex \<Rightarrow> string \<Rightarrow> string list" where
  "re_split re s = split_from re [] s"

text \<open>Pattern building blocks.\<close>

definition ch :: "char \<Rightarrow> regex" where
  "ch c = Cls (\<lambda>x. x = c)"

definition chi :: "char \<Rightarrow> regex" where
  "chi c = Cls (\<lambda>x. lower_ch x = lower_ch c)"

definition lit :: "string \<Rightarrow> regex" where
  "lit s = foldr (\<lambda>c r. Seq (ch c) r) s Eps"

definition liti :: "string \<Rightarrow> regex" where
  "liti s = foldr (\<lambda>c r. Seq (chi c) r) s Eps"

definition seqs :: "regex list \<Rightarrow> regex" where
  "seqs rs = foldr Seq rs Eps"

definition anych :: "char \<Rightarrow> bool" where
  "anych c = True"


section \<open>The job matcher\<close>

text \<open>
  A float of the source is modelled as the rational number its decimal literal or its
  quotient denotes: the arithmetic of the scores is exact in the model.
\<close>

datatype error = ValueError | IndexError

text \<open>One row of the job table, without the derived column.\<close>

record job =
  title :: string
  company :: string
  location :: string
  salary :: string
  experience :: string
  description :: string
  requirements :: string
  job_type :: string
  industry :: string

text \<open>A row of \<open>jobs_data\<close> once \<open>_prepare_jobs_data\<close> has added \<open>combined_text\<close>.\<close>

record row =
  posting :: job
  combined_text :: string

text \<open>
  The matcher object.  \<open>jobs_data\<close> is the table (a list of rows, indexed from 0 as a
  DataFrame built from a list is) or \<open>None\<close>.  The TF-IDF vectorizer and \<open>job_vectors\<close>
  are set at construction and read by no method; they are left out.
\<close>

record matcher =
  jobs_data :: "row list option"

definition default_job_0 :: job where
  "default_job_0 =
   \<lparr>title = ''Senior Software Engineer'',
     company = ''TechCorp Dubai'',
     location = ''Dubai, UAE'',
     salary = ''AED 25,000 - 35,000'',
     experience = ''5-8 years'',
     description = ''We are looking for a Senior Software Engineer with expertise in Python, JavaScript, and cloud technologies. Experience with AWS, Docker, and microservices architecture is required.'',
     requirements = ''Python, JavaScript, AWS, Docker, Microservices, React, Node.js, MongoDB, PostgreSQL'',
     job_type = ''Full-time'',
     industry = ''Technology''\<rparr>"

definition default_job_1 :: job where
  "default_job_1 =
   \<lparr>title = ''Data Scientist'',
     company = ''DataFlow Analytics'',
     location = ''Dubai, UAE'',
     salary = ''AED 20,000 - 30,000'',
     experience = ''3-6 years'',
     description = ''Join our data science team to develop machine learning models and analytics solutions. Work with large datasets and implement predictive models.'',
     requirements = ''Python, Machine Learning, Statistics, SQL, Pandas, Scikit-learn, TensorFlow, Data Analysis'',
     job_type = ''Full-time'',
     industry = ''Technology''\<rparr>"

definition default_job_2 :: job where
  "default_job_2 =
   \<lparr>title = ''Marketing Manager'',
     company = ''Global Marketing Solutions'',
     location = ''Dubai, UAE'',
     salary = ''AED 18,000 - 25,000'',
     experience = ''4-7 years'',
     description = ''Lead marketing campaigns and strategies for our clients in the MENA region. Experience in digital marketing and brand management required.'',
     requirements = ''Digital Marketing, Brand Management, Social Media, Google Ads, Analytics, Campaign Management'',
     job_type = ''Full-time'',
     industry = ''Marketing''\<rparr>"

definition default_job_3 :: job where
  "default_job_3 =
   \<lparr>title = ''Financial Analyst'',
     company = ''Dubai Financial Services'',
     location = ''Dubai, UAE'',
     salary = ''AED 15,000 - 22,000'',
     experience = ''2-5 years'',
     description = ''Analyze financial data, prepare reports, and provide insights for investment decisions. CFA or similar certification preferred.'',
     requirements = ''Financial Analysis, Excel, Financial Modeling, CFA, Investment Analysis, Risk Management'',
     job_type = ''Full-time'',
     industry = ''Finance''\<rparr>"

definition default_job_4 :: job where
  "default_job_4 =
   \<lparr>title = ''UX/UI Designer'',
     company = ''Creative Design Studio'',
     location = ''Dubai, UAE'',
     salary = ''AED 16,000 - 24,000'',
     experience = ''3-6 years'',
     description = ''Create user-centered designs for web and mobile applications. Experience with design tools and user research methods required.'',
     requirements = ''Figma, Adobe Creative Suite, User Research, Prototyping, Wireframing, Design Systems'',
     job_type = ''Full-time'',
     industry = ''Design''\<rparr>"

definition default_job_5 :: job where
  "default_job_5 =
   \<lparr>title = ''Project Manager'',
     company = ''Construction Solutions Ltd'',
     location = ''Dubai, UAE'',
     salary = ''AED 20,000 - 28,000'',
     experience = ''5-8 years'',
     description = ''Manage construction projects from inception to completion. PMP certification and experience in the UAE market preferred.'',
     requirements = ''Project Management, PMP, Construction, Budget Management, Team Leadership, Risk Management'',
     job_type = ''Full-time'',
     industry = ''Construction''\<rparr>"

definition default_job_6 :: job where
  "default_job_6 =
   \<lparr>title = ''Sales Executive'',
     company = ''Dubai Trading Company'',
     location = ''Dubai, UAE'',
     salary = ''AED 8,000 - 15,000'',
     experience = ''1-3 years'',
     description = ''Generate new business opportunities and maintain relationships with existing clients. Strong communication skills required.'',
     requirements = ''Sales, Customer Relationship Management, Communication, Negotiation, B2B Sales'',
     job_type = ''Full-time'',
     industry = ''Sales''\<rparr>"

definition default_job_7 :: job where
  "default_job_7 =
   \<lparr>title = ''Human Resources Specialist'',
     company = ''HR Solutions UAE'',
     location = ''Dubai, UAE'',
     salary = ''AED 12,000 - 18,000'',
     experience = ''3-5 years'',
     description = ''Handle recruitment, employee relations, and HR operations. Knowledge of UAE labor law required.'',
     requirements = ''HR Management, Recruitment, Employee Relations, UAE Labor Law, HRIS, Performance Management'',
     job_type = ''Full-time'',
     industry = ''Human Resources''\<rparr>"

definition default_job_8 :: job where
  "default_job_8 =
   \<lparr>title = ''Business Development Manager'',
     company = ''Innovation Hub Dubai'',
     location = ''Dubai, UAE'',
     salary = ''AED 22,000 - 32,000'',
     experience = ''4-7 years'',
     description = ''Develop strategic partnerships and identify new business opportunities in the technology sector.'',
     requirements = ''Business Development, Strategic Partnerships, Market Analysis, Negotiation, Technology Industry'',
     job_type = ''Full-time'',
     industry = ''Business Development''\<rparr>"

definition default_job_9 :: job where
  "default_job_9 =
   \<lparr>title = ''Content Writer'',
     company = ''Digital Content Agency'',
     location = ''Dubai, UAE'',
     salary = ''AED 8,000 - 12,000'',
     experience = ''2-4 years'',
     description = ''Create engaging content for websites, blogs, and social media platforms. Experience in SEO and content marketing preferred.'',
     requirements = ''Content Writing, SEO, Social Media, Copywriting, Content Marketing, WordPress'',
     job_type = ''Full-time'',
     industry = ''Marketing''\<rparr>"

definition load_default_jobs :: "job list" where
  "load_default_jobs =
     [default_job_0, default_job_1, default_job_2, default_job_3, default_job_4,
      default_job_5, default_job_6, default_job_7, default_job_8, default_job_9]"

definition prepare_row :: "job \<Rightarrow> row" where
  "prepare_row j =
     \<lparr>posting = j,
      combined_text = title j @ '' '' @ description j @ '' '' @ requirements j @ '' '' @ company j\<rparr>"

definition prepare_jobs_data :: "job list \<Rightarrow> row list" where
  "prepare_jobs_data js = map prepare_row js"

text \<open>
  \<open>__init__\<close>: \<open>self.jobs_data = jobs_data or self._load_default_jobs()\<close>.  The operand
  of \<open>or\<close> is tested for truth.  \<open>None\<close> is false, so the default table is loaded.  A
  DataFrame has no truth value: pandas raises ValueError from \<open>DataFrame.__bool__\<close>
  for every frame, empty or not, before anything is assigned.
\<close>

definition init :: "job list option \<Rightarrow> error + matcher" where
  "init arg =
     (case arg of
        None \<Rightarrow> Inr \<lparr>jobs_data = Some (prepare_jobs_data load_default_jobs)\<rparr>
      | Some df \<Rightarrow> Inl ValueError)"

subsection \<open>The profile handed to the matcher\<close>

text \<open>
  \<open>resume_data\<close> is the dict the parser builds.  An experience or project entry is a
  dict with the keys \<open>title\<close> and \<open>description\<close>, an education entry one with
  \<open>degree\<close> and \<open>institution\<close>; a key may be missing.  The key \<open>experience\<close> of the
  dict is the field \<open>experience_entries\<close> here.
\<close>

record entry =
  entry_title :: "string option"
  entry_description :: "string option"

record edu_entry =
  degree :: "string option"
  institution :: "string option"

record contact =
  email :: "string option"
  phone :: "string option"
  linkedin :: "string option"

record resume_data =
  raw_text :: string
  contact_info :: contact
  name :: string
  summary :: string
  experience_entries :: "entry list"
  education :: "edu_entry list"
  skills :: "string list"
  languages :: "string list"
  certifications :: "string list"
  projects :: "entry list"

definition get_or :: "string option \<Rightarrow> string \<Rightarrow> string" where
  "get_or v d = (case v of None \<Rightarrow> d | Some x \<Rightarrow> x)"

definition prepare_resume_text :: "resume_data \<Rightarrow> string" where
  "prepare_resume_text rd =
     join '' ''
       ((if name rd \<noteq> [] then [name rd] else []) @
        (if summary rd \<noteq> [] then [summary rd] else []) @
        (if skills rd \<noteq> [] then skills rd else []) @
        concat (map (\<lambda>e. [get_or (entry_title e) [], get_or (entry_description e) []])
                    (experience_entries rd)) @
        concat (map (\<lambda>e. [get_or (degree e) [], get_or (institution e) []]) (education rd)) @
        concat (map (\<lambda>e. [get_or (entry_title e) [], get_or (entry_description e) []])
                    (projects rd)) @
        (if raw_text rd \<noteq> [] then [raw_text rd] else []))"

subsection \<open>The four factors\<close>

text \<open>\<open>\b\w+\b\<close>\<close>

definition word_re :: regex where
  "word_re = seqs [Wordb, Rep 1 is_word, Wordb]"

definition count_in :: "string list \<Rightarrow> string \<Rightarrow> nat" where
  "count_in ks text = length (filter (\<lambda>k. contains k text) ks)"

definition ratio :: "nat \<Rightarrow> nat \<Rightarrow> rat" where
  "ratio m n = of_nat m / of_nat n"

definition calculate_keyword_score :: "string \<Rightarrow> job \<Rightarrow> rat" where
  "calculate_keyword_score resume_text j =
     (let keywords = re_findall word_re (lower (requirements j)) in
      if keywords = [] then 0
      else ratio (count_in keywords (lower resume_text)) (length keywords))"

definition calculate_title_match :: "string \<Rightarrow> string \<Rightarrow> rat" where
  "calculate_title_match resume_text job_title =
     (let title_keywords = re_findall word_re (lower job_title) in
      if title_keywords = [] then 0
      else ratio (count_in title_keywords (lower resume_text)) (length title_keywords))"

definition technical_skills :: "string list" where
  "technical_skills =
     [''python'', ''javascript'', ''java'', ''c++'', ''c#'', ''php'', ''ruby'', ''go'', ''rust'',
      ''html'', ''css'', ''react'', ''angular'', ''vue'', ''node.js'', ''express'', ''django'',
      ''flask'', ''spring'', ''laravel'', ''sql'', ''mongodb'', ''postgresql'', ''mysql'',
      ''aws'', ''azure'', ''gcp'', ''docker'', ''kubernetes'', ''git'', ''jenkins'',
      ''machine learning'', ''ai'', ''data science'', ''analytics'', ''tableau'',
      ''excel'', ''power bi'', ''spark'', ''hadoop'', ''tensorflow'', ''pytorch'']"

definition calculate_skills_match :: "string \<Rightarrow> string \<Rightarrow> rat" where
  "calculate_skills_match resume_text job_requirements =
     (let job_skills = filter (\<lambda>s. contains s (lower job_requirements)) technical_skills in
      if job_skills = [] then 0
      else ratio (count_in job_skills (lower resume_text)) (length job_skills))"

text \<open>\<open>(\d+)[\-\s]*(\d+)?\s*years?\<close>\<close>

definition experience_re :: regex where
  "experience_re =
     seqs [Grp 1 (Rep 1 is_digit), Rep 0 (\<lambda>c. c = CHR ''-'' \<or> is_space c),
           Opt (Grp 2 (Rep 1 is_digit)), Rep 0 is_space, lit ''year'', Opt (ch CHR ''s'')]"

text \<open>\<open>int(s)\<close> on a string of decimal digits.  CPython refuses a string of more than 4300
  digits by default (since 3.11); the model has Python's unbounded integers without that
  limit.\<close>

definition int_of_digits :: "string \<Rightarrow> int" where
  "int_of_digits s = foldl (\<lambda>n c. 10 * n + (int (code c) - 48)) 0 s"

definition experience_indicators :: "string list" where
  "experience_indicators =
     [''years of experience'', ''years experience'', ''worked for'', ''employed for'',
      ''experience in'', ''professional experience'', ''work history'']"

definition has_experience :: "string \<Rightarrow> bool" where
  "has_experience resume_text =
     list_ex (\<lambda>indicator. contains indicator (lower resume_text)) experience_indicators"

definition calculate_experience_match :: "string \<Rightarrow> string \<Rightarrow> rat" where
  "calculate_experience_match resume_text job_experience =
     (case re_search experience_re (lower job_experience) of
        None \<Rightarrow> 1 / 2
      | Some exp_match \<Rightarrow>
          (let min_years = int_of_digits (get_or (group exp_match 1) []);
               max_years = (case group exp_match 2 of
                              Some g \<Rightarrow> (if g \<noteq> [] then int_of_digits g else min_years + 2)
                            | None \<Rightarrow> min_years + 2)
           in if \<not> has_experience resume_text then 0 else 4 / 5))"

subsection \<open>Score, ranking and the catalog operations\<close>

definition calculate_job_match_score :: "string \<Rightarrow> job \<Rightarrow> rat" where
  "calculate_job_match_score resume_text j =
     (let score = 0;
          score = score + calculate_keyword_score resume_text j * (4 / 10);
          score = score + calculate_title_match resume_text (title j) * (2 / 10);
          score = score + calculate_skills_match resume_text (requirements j) * (25 / 100);
          score = score + calculate_experience_match resume_text (experience j) * (15 / 100)
      in min 1 (max 0 score))"

text \<open>\<open>round(x, 1)\<close>: the nearest multiple of one tenth, a tie going to the even one.\<close>

definition round1 :: "rat \<Rightarrow> rat" where
  "round1 x =
     (let t = x * 10; f = \<lfloor>t\<rfloor>; d = t - of_int f in
      of_int (if d < 1 / 2 then f else if 1 / 2 < d then f + 1 else if even f then f else f + 1) / 10)"

record match_info =
  job_id :: nat
  matched_job :: job
  match_score :: rat
  match_percentage :: rat

definition make_match :: "string \<Rightarrow> nat \<times> row \<Rightarrow> match_info" where
  "make_match resume_text ir =
     (let score = calculate_job_match_score resume_text (posting (snd ir)) in
      \<lparr>job_id = fst ir, matched_job = posting (snd ir),
       match_score = score, match_percentage = round1 (score * 100)\<rparr>)"

text \<open>\<open>iterrows\<close>: the rows with their index.\<close>

definition iterrows :: "row list \<Rightarrow> (nat \<times> row) list" where
  "iterrows rows = zip [0 ..< length rows] rows"

text \<open>All matches in catalog order, before sorting.\<close>

definition all_matches :: "row list \<Rightarrow> resume_data \<Rightarrow> match_info list" where
  "all_matches rows rd = map (make_match (prepare_resume_text rd)) (iterrows rows)"

text \<open>\<open>list.sort(key = ..., reverse = True)\<close> is stable: equal keys keep their order.\<close>

definition sort_desc :: "match_info list \<Rightarrow> match_info list" where
  "sort_desc ms = sort_key (\<lambda>m. - match_score m) ms"

definition match_resume_to_jobs :: "matcher \<Rightarrow> resume_data \<Rightarrow> int \<Rightarrow> match_info list" where
  "match_resume_to_jobs self rd top_n =
     (case jobs_data self of
        None \<Rightarrow> []
      | Some rows \<Rightarrow>
          if rows = [] then [] else slice_to (sort_desc (all_matches rows rd)) top_n)"

text \<open>
  \<open>get_job_details\<close>: \<open>{}\<close> is \<open>None\<close>.  \<open>iloc[i]\<close> counts a negative \<open>i\<close> from the end
  and raises IndexError when there is no such row.
\<close>

definition iloc :: "'a list \<Rightarrow> int \<Rightarrow> error + 'a" where
  "iloc rows i =
     (let n = int (length rows); k = (if i < 0 then n + i else i) in
      if 0 \<le> k \<and> k < n then Inr (rows ! nat k) else Inl IndexError)"

definition get_job_details :: "matcher \<Rightarrow> int \<Rightarrow> error + job option" where
  "get_job_details self jid =
     (case jobs_data self of
        None \<Rightarrow> Inr None
      | Some rows \<Rightarrow>
          if int (length rows) \<le> jid then Inr None
          else (case iloc rows jid of Inl e \<Rightarrow> Inl e | Inr r \<Rightarrow> Inr (Some (posting r))))"

definition search_hit :: "string \<Rightarrow> job \<Rightarrow> bool" where
  "search_hit query_lower j =
     (contains query_lower (lower (title j)) \<or> contains query_lower (lower (company j)) \<or>
      contains query_lower (lower (description j)) \<or> contains query_lower (lower (requirements j)))"

definition search_jobs :: "matcher \<Rightarrow> string \<Rightarrow> int \<Rightarrow> (nat \<times> job) list" where
  "search_jobs self query top_n =
     (case jobs_data self of
        None \<Rightarrow> []
      | Some rows \<Rightarrow>
          if rows = [] then []
          else slice_to
                 (map (\<lambda>ir. (fst ir, posting (snd ir)))
                    (filter (\<lambda>ir. search_hit (lower query) (posting (snd ir))) (iterrows rows)))
                 top_n)"

definition get_jobs_by_industry :: "matcher \<Rightarrow> string \<Rightarrow> row list" where
  "get_jobs_by_industry self ind =
     (case jobs_data self of
        None \<Rightarrow> []
      | Some rows \<Rightarrow>
          if rows = [] then []
          else filter (\<lambda>r. lower (industry (posting r)) = lower ind) rows)"


section \<open>The resume parser\<close>

text \<open>
  The parser object holds two language models, loaded at construction or \<open>None\<close> when
  loading fails.
\<close>

typedecl spacy_model

record parser =
  nlp_en :: "spacy_model option"
  nlp_ar :: "spacy_model option"

subsection \<open>Cleaning\<close>

text \<open>\<open>re.sub(r'\s+', ' ', text)\<close>: every maximal run of white space becomes one space.\<close>

function collapse_ws :: "string \<Rightarrow> string" where
  "collapse_ws [] = []"
| "collapse_ws (x # xs) =
     (if is_space x then CHR '' '' # collapse_ws (dropWhile is_space xs) else x # collapse_ws xs)"
  by pat_completeness auto
termination
  by (relation "measure length") (auto intro: le_imp_less_Suc length_dropWhile_le)

text \<open>
  The second substitution deletes every character that is not a word character, white
  space, one of \<open>- . , ; : ! ? ( )\<close> or in one of five Arabic ranges (U+0600 to U+FEFF);
  the Arabic ranges lie outside the characters of the model.
\<close>

definition allowed_char :: "char \<Rightarrow> bool" where
  "allowed_char c = (is_word c \<or> is_space c \<or> c \<in> set ''-.,;:!?()'')"

definition clean_text :: "string \<Rightarrow> string" where
  "clean_text text = strip (filter allowed_char (collapse_ws text))"

subsection \<open>Contact information\<close>

text \<open>\<open>\b[A-Za-z0-9._%+-]+@[A-Za-z0-9.-]+\.[A-Z|a-z]{2,}\b\<close>\<close>

definition email_re :: regex where
  "email_re =
     seqs [Wordb,
           Rep 1 (\<lambda>c. is_ascii_letter c \<or> is_digit c \<or> c \<in> set ''._%+-''),
           ch CHR ''@'',
           Rep 1 (\<lambda>c. is_ascii_letter c \<or> is_digit c \<or> c \<in> set ''.-''),
           ch CHR ''.'',
           Rep 2 (\<lambda>c. is_ascii_letter c \<or> c = CHR ''|''),
           Wordb]"

text \<open>\<open>\+?[\d\s\-\(\)]{10,}\<close> and \<open>[\d\s\-\(\)]{10,}\<close>\<close>

definition phone_char :: "char \<Rightarrow> bool" where
  "phone_char c = (is_digit c \<or> is_space c \<or> c \<in> set ''-()'')"

definition phone_patterns :: "regex list" where
  "phone_patterns = [seqs [Opt (ch CHR ''+''), Rep 10 phone_char], seqs [Rep 10 phone_char]]"

text \<open>\<open>linkedin\.com/in/[\w\-]+\<close>\<close>

definition linkedin_re :: regex where
  "linkedin_re = seqs [lit ''linkedin.com/in/'', Rep 1 (\<lambda>c. is_word c \<or> c = CHR ''-'')]"

text \<open>The first pattern of a list that is found in the text, with its match.\<close>

fun first_match :: "regex list \<Rightarrow> string \<Rightarrow> rematch option" where
  "first_match [] text = None"
| "first_match (p # ps) text =
     (case re_search p text of Some m \<Rightarrow> Some m | None \<Rightarrow> first_match ps text)"

definition extract_contact_info :: "string \<Rightarrow> contact" where
  "extract_contact_info text =
     \<lparr>email = map_option matched (re_search email_re text),
      phone = map_option (\<lambda>m. strip (matched m)) (first_match phone_patterns text),
      linkedin = map_option matched (re_search linkedin_re text)\<rparr>"

subsection \<open>Name\<close>

definition name_keywords :: "string list" where
  "name_keywords =
     [''resume'', ''cv'', ''curriculum'', ''vitae'', ''experience'', ''education'', ''skills'']"

fun first_name :: "string list \<Rightarrow> string" where
  "first_name [] = []"
| "first_name (l # ls) =
     (let line = strip l in
      if line \<noteq> [] \<and> length (split_ws line) \<le> 4
      then (if \<not> list_ex (\<lambda>keyword. contains (lower keyword) (lower line)) name_keywords
            then line else first_name ls)
      else first_name ls)"

definition extract_name :: "string \<Rightarrow> string" where
  "extract_name text = first_name (take 5 (split_char newline text))"

subsection \<open>Sections\<close>

definition colon_space :: "char \<Rightarrow> bool" where
  "colon_space c = (c = CHR '':'' \<or> is_space c)"

text \<open>
  \<open>header[:\s]*(.*?)(?=\n\s*\n\s*[A-Z]|$)\<close> under IGNORECASE and DOTALL, and the form
  the summary uses, \<open>header[:\s]*(.*?)(?=\n\s*\n|\n\s*[A-Z]|$)\<close>.
\<close>

definition section_re :: "string \<Rightarrow> regex" where
  "section_re header =
     seqs [liti header, Rep 0 colon_space, Grp 1 (Lazy anych),
           Ahead (Alt (seqs [ch newline, Rep 0 is_space, ch newline, Rep 0 is_space,
                             Cls is_ascii_letter])
                      Eos)]"

definition summary_re :: "string \<Rightarrow> regex" where
  "summary_re header =
     seqs [liti header, Rep 0 colon_space, Grp 1 (Lazy anych),
           Ahead (Alt (seqs [ch newline, Rep 0 is_space, ch newline])
                 (Alt (seqs [ch newline, Rep 0 is_space, Cls is_ascii_letter])
                      Eos))]"

text \<open>
  Each section tries its header patterns in order and takes group 1 of the first that is
  found.  The Arabic headers stand last in every list of the source and need a character
  outside the model to match; they are left out.
\<close>

definition section_body :: "regex list \<Rightarrow> string \<Rightarrow> string option" where
  "section_body patterns text =
     map_option (\<lambda>m. get_or (group m 1) []) (first_match patterns text)"

definition extract_summary :: "string \<Rightarrow> string" where
  "extract_summary text =
     (case section_body (map summary_re [''summary'', ''objective'', ''profile'']) text of
        Some body \<Rightarrow> strip body
      | None \<Rightarrow> [])"

subsection \<open>Records of a section\<close>

definition empty_entry :: entry where
  "empty_entry = \<lparr>entry_title = None, entry_description = None\<rparr>"

definition nonempty_entry :: "entry \<Rightarrow> bool" where
  "nonempty_entry e = (entry_title e \<noteq> None \<or> entry_description e \<noteq> None)"

fun alts :: "regex list \<Rightarrow> regex" where
  "alts [] = Eps"
| "alts [r] = r"
| "alts (r # rs) = Alt r (alts rs)"

definition trigger :: "string list \<Rightarrow> regex" where
  "trigger ws = Grp 1 (alts (map liti ws))"

text \<open>
  The three \<open>_parse_..._entries\<close> loops are the same code but for the trigger words and
  the two keys of the dict.  \<open>segment_step\<close> is the body of the loop on one line, over
  the entries closed so far and \<open>current_entry\<close>.
\<close>

definition segment_step :: "regex \<Rightarrow> entry list \<times> entry \<Rightarrow> string \<Rightarrow> entry list \<times> entry" where
  "segment_step trig st raw =
     (case st of (entries, current_entry) \<Rightarrow>
        (let line = strip raw in
         if line = [] then
           (if nonempty_entry current_entry then (entries @ [current_entry], empty_entry)
            else (entries, current_entry))
         else if re_search trig line \<noteq> None then
           ((if nonempty_entry current_entry then entries @ [current_entry] else entries),
            \<lparr>entry_title = Some line, entry_description = None\<rparr>)
         else if nonempty_entry current_entry \<and> entry_title current_entry \<noteq> None then
           (entries,
            current_entry\<lparr>entry_description :=
              Some (case entry_description current_entry of
                      None \<Rightarrow> line
                    | Some d \<Rightarrow> d @ '' '' @ line)\<rparr>)
         else (entries, current_entry)))"

definition segment :: "regex \<Rightarrow> string \<Rightarrow> entry list" where
  "segment trig text =
     (case foldl (segment_step trig) ([], empty_entry) (split_char newline text) of
        (entries, current_entry) \<Rightarrow>
          if nonempty_entry current_entry then entries @ [current_entry] else entries)"

definition parse_experience_entries :: "string \<Rightarrow> entry list" where
  "parse_experience_entries exp_text =
     segment (trigger [''senior'', ''junior'', ''lead'', ''manager'', ''director'', ''engineer'',
                       ''developer'', ''analyst'', ''consultant'']) exp_text"

definition to_edu :: "entry \<Rightarrow> edu_entry" where
  "to_edu e = \<lparr>degree = entry_title e, institution = entry_description e\<rparr>"

definition parse_education_entries :: "string \<Rightarrow> edu_entry list" where
  "parse_education_entries edu_text =
     map to_edu
       (segment (trigger [''bachelor'', ''master'', ''phd'', ''diploma'', ''certificate'', ''degree''])
          edu_text)"

definition parse_project_entries :: "string \<Rightarrow> entry list" where
  "parse_project_entries proj_text =
     segment (trigger [''project'', ''application'', ''system'', ''platform'', ''website'', ''app''])
       proj_text"

definition extract_experience :: "string \<Rightarrow> entry list" where
  "extract_experience text =
     (case section_body (map section_re [''experience'', ''work history'', ''employment'']) text of
        Some exp_text \<Rightarrow> parse_experience_entries exp_text
      | None \<Rightarrow> [])"

definition extract_education :: "string \<Rightarrow> edu_entry list" where
  "extract_education text =
     (case section_body (map section_re [''education'', ''academic'']) text of
        Some edu_text \<Rightarrow> parse_education_entries edu_text
      | None \<Rightarrow> [])"

definition extract_projects :: "string \<Rightarrow> entry list" where
  "extract_projects text =
     (case section_body (map section_re [''projects'']) text of
        Some proj_text \<Rightarrow> parse_project_entries proj_text
      | None \<Rightarrow> [])"

subsection \<open>Lists of a section\<close>

text \<open>\<open>[,\n;]\<close>, \<open>\s+and\s+\<close> and \<open>\s+&\s+\<close>\<close>

definition delimiter_class :: "char \<Rightarrow> bool" where
  "delimiter_class c = (c = CHR '','' \<or> c = newline \<or> c = CHR '';'')"

definition delimiter_re :: regex where
  "delimiter_re = Cls delimiter_class"

definition and_re :: regex where
  "and_re = seqs [Rep 1 is_space, lit ''and'', Rep 1 is_space]"

definition ampersand_re :: regex where
  "ampersand_re = seqs [Rep 1 is_space, lit ''&'', Rep 1 is_space]"

definition skill_patterns :: "regex list" where
  "skill_patterns = [delimiter_re, and_re, ampersand_re]"

definition split_pieces :: "regex \<Rightarrow> string \<Rightarrow> string list" where
  "split_pieces pattern text = filter (\<lambda>s. s \<noteq> []) (map strip (re_split pattern text))"

text \<open>The \<open>for\<close> loop with its \<open>break\<close>: the first pattern found splits the text.\<close>

fun split_first :: "regex list \<Rightarrow> string \<Rightarrow> string list" where
  "split_first [] text = []"
| "split_first (pattern # ps) text =
     (if re_search pattern text \<noteq> None then split_pieces pattern text else split_first ps text)"

definition long_words :: "string \<Rightarrow> string list" where
  "long_words text = filter (\<lambda>w. 2 < length w) (map strip (split_ws text))"

definition parse_skills_list :: "string \<Rightarrow> string list" where
  "parse_skills_list skills_text =
     (let skills = split_first skill_patterns skills_text;
          skills = (if skills = [] then long_words skills_text else skills)
      in take 20 skills)"

definition extract_skills :: "string \<Rightarrow> string list" where
  "extract_skills text =
     (case section_body (map section_re [''skills'', ''technical skills'', ''competencies'']) text of
        Some skills_text \<Rightarrow> parse_skills_list skills_text
      | None \<Rightarrow> [])"

definition extract_languages :: "string \<Rightarrow> string list" where
  "extract_languages text =
     (case section_body (map section_re [''languages'']) text of
        Some lang_text \<Rightarrow> parse_skills_list lang_text
      | None \<Rightarrow> [])"

definition extract_certifications :: "string \<Rightarrow> string list" where
  "extract_certifications text =
     (case section_body (map section_re [''certifications'', ''certificates'']) text of
        Some cert_text \<Rightarrow> parse_skills_list cert_text
      | None \<Rightarrow> [])"

subsection \<open>The profile\<close>

definition extract_structure :: "parser \<Rightarrow> string \<Rightarrow> resume_data" where
  "extract_structure self raw =
     (let text = clean_text raw in
      \<lparr>raw_text = text,
       contact_info = extract_contact_info text,
       name = extract_name text,
       summary = extract_summary text,
       experience_entries = extract_experience text,
       education = extract_education text,
       skills = extract_skills text,
       languages = extract_languages text,
       certifications = extract_certifications text,
       projects = extract_projects text\<rparr>)"


section \<open>Readings of the specification and sample inputs\<close>

text \<open>
  The definitions of this section do not come from the source.  Each follows a sentence
  of the specification, to be compared with the function of the source, or is a concrete
  input on which the theorems are run.
\<close>

text \<open>The keyword factor with the matching tokens counted once each, as the
  specification words it ("distinct requirement tokens").\<close>

definition keyword_score_spec :: "string \<Rightarrow> job \<Rightarrow> rat" where
  "keyword_score_spec resume_text j =
     (let tokens = re_findall word_re (lower (requirements j)) in
      if tokens = [] then 0
      else ratio (length (remdups (filter (\<lambda>k. contains k (lower resume_text)) tokens)))
                 (length tokens))"

text \<open>The name rule as the specification words it: a line qualifies when it has at most
  four words and none of the listed words; the first such line of the first five is the
  name.\<close>

definition qualifies_spec :: "string \<Rightarrow> bool" where
  "qualifies_spec line =
     (length (split_ws line) \<le> 4
      \<and> \<not> list_ex (\<lambda>keyword. contains keyword (lower line)) name_keywords)"

definition extract_name_spec :: "string \<Rightarrow> string" where
  "extract_name_spec text =
     (case filter qualifies_spec (take 5 (split_char newline text)) of [] \<Rightarrow> [] | l # _ \<Rightarrow> l)"

text \<open>The name rule with the lower bound the code has: one to four words.\<close>

definition name_line :: "string \<Rightarrow> bool" where
  "name_line line =
     (1 \<le> length (split_ws line) \<and> length (split_ws line) \<le> 4
      \<and> \<not> list_ex (\<lambda>keyword. contains keyword (lower line)) name_keywords)"



text \<open>Sample inputs.\<close>

definition default_matcher :: matcher where
  "default_matcher = \<lparr>jobs_data = Some (prepare_jobs_data load_default_jobs)\<rparr>"

definition no_models :: parser where
  "no_models = \<lparr>nlp_en = None, nlp_ar = None\<rparr>"









section \<open>Facts about text\<close>

lemma newline_is_space: "is_space newline"
  by (simp add: is_space_def code_def newline_def)

lemma collapse_ws_spaces: "x \<in> set (collapse_ws s) \<Longrightarrow> is_space x \<Longrightarrow> x = CHR '' ''"
  by (induction s rule: collapse_ws.induct) (auto split: if_splits)

lemma set_strip: "set (strip s) \<subseteq> set s"
proof -
  have "set (strip s) \<subseteq> set (dropWhile is_space s)"
    unfolding strip_def using set_dropWhileD [of _ is_space "rev (dropWhile is_space s)"] by auto
  also have "\<dots> \<subseteq> set s" using set_dropWhileD [of _ is_space s] by auto
  finally show ?thesis .
qed

lemma clean_text_spaces: "x \<in> set (clean_text t) \<Longrightarrow> is_space x \<Longrightarrow> x = CHR '' ''"
  using set_strip [of "filter allowed_char (collapse_ws t)"] collapse_ws_spaces [of x t]
  by (auto simp: clean_text_def)

lemma clean_text_no_newline: "newline \<notin> set (clean_text t)"
  using clean_text_spaces [of newline t] newline_is_space by (auto simp: newline_def)

lemma split_char_acc_absent: "d \<notin> set s \<Longrightarrow> split_char_acc d cur s = [cur @ s]"
  by (induction s arbitrary: cur) auto

lemma split_char_absent: "d \<notin> set s \<Longrightarrow> split_char d s = [s]"
  by (simp add: split_char_def split_char_acc_absent)

lemma dropWhile_snoc_keep: "\<not> P x \<Longrightarrow> \<exists>zs. dropWhile P (ys @ [x]) = zs @ [x]"
  by (induction ys) auto

text \<open>A stripped string is empty or has no white space at either end.\<close>

lemma strip_shape: "strip s = [] \<or> (\<not> is_space (hd (strip s)) \<and> \<not> is_space (last (strip s)))"
proof (cases "dropWhile is_space s")
  case Nil
  then have "strip s = []" unfolding strip_def by (simp only: rev.simps dropWhile.simps)
  then show ?thesis by simp
next
  case (Cons a as)
  then have na: "\<not> is_space a" using hd_dropWhile [of is_space s] by auto
  have "rev (a # as) = rev as @ [a]" by simp
  then obtain zs where zs: "dropWhile is_space (rev (a # as)) = zs @ [a]"
    using dropWhile_snoc_keep [of is_space a "rev as"] na by auto
  then have s: "strip s = a # rev zs" by (simp add: strip_def Cons)
  have "\<not> is_space (hd (zs @ [a]))"
    using hd_dropWhile [of is_space "rev (a # as)"] zs by (metis snoc_eq_iff_butlast)
  then have "\<not> is_space (last (a # rev zs))"
    by (cases zs) (simp_all add: last_rev)
  with s na show ?thesis by simp
qed

lemma strip_fixed: "s = [] \<or> (\<not> is_space (hd s) \<and> \<not> is_space (last s)) \<Longrightarrow> strip s = s"
proof (cases s)
  case Nil
  then show ?thesis by (simp add: strip_def)
next
  case (Cons a as)
  assume "s = [] \<or> (\<not> is_space (hd s) \<and> \<not> is_space (last s))"
  with Cons have h: "\<not> is_space a" and l: "\<not> is_space (last (a # as))" by auto
  from h have d: "dropWhile is_space (a # as) = a # as" by simp
  from l have "\<not> is_space (hd (rev (a # as)))" by (metis hd_rev)
  then have "dropWhile is_space (rev (a # as)) = rev (a # as)"
    by (cases "rev (a # as)") auto
  with d Cons show ?thesis by (simp add: strip_def)
qed

lemma strip_idem: "strip (strip s) = strip s"
  using strip_shape [of s] by (rule strip_fixed)

lemma clean_text_stripped: "strip (clean_text t) = clean_text t"
  by (simp add: clean_text_def strip_idem)

lemma split_ws_acc_Nil: "split_ws_acc cur s = [] \<longleftrightarrow> cur = [] \<and> (\<forall>x \<in> set s. is_space x)"
  by (induction s arbitrary: cur) auto

lemma split_ws_Nil: "split_ws s = [] \<longleftrightarrow> (\<forall>x \<in> set s. is_space x)"
  by (simp add: split_ws_def split_ws_acc_Nil)

lemma stripped_words: "strip l \<noteq> [] \<longleftrightarrow> 1 \<le> length (split_ws (strip l))"
proof
  assume ne: "strip l \<noteq> []"
  then have "\<not> is_space (hd (strip l))" using strip_shape [of l] by simp
  with ne have "\<not> (\<forall>x \<in> set (strip l). is_space x)" using hd_in_set by blast
  then have "split_ws (strip l) \<noteq> []" by (simp add: split_ws_Nil)
  then show "1 \<le> length (split_ws (strip l))" by (cases "split_ws (strip l)") simp_all
next
  assume "1 \<le> length (split_ws (strip l))"
  then show "strip l \<noteq> []" by (auto simp: split_ws_def)
qed

section \<open>Facts about the matcher of regular expressions\<close>

lemma match_here_Cls:
  "match_here (Cls p) c r = None \<longleftrightarrow> (case r of [] \<Rightarrow> True | x # _ \<Rightarrow> \<not> p x)"
  by (simp add: match_here_def step_class_def split: list.splits)

text \<open>A pattern of one character class is found exactly when the text has a character
  of the class.\<close>

lemma search_from_Cls: "search_from (Cls p) c r \<noteq> None \<longleftrightarrow> (\<exists>x \<in> set r. p x)"
proof (induction r arbitrary: c)
  case Nil
  then show ?case by (simp add: match_here_Cls)
next
  case (Cons x xs)
  show ?case
  proof (cases "match_here (Cls p) c (x # xs)")
    case None
    then have "\<not> p x" by (simp add: match_here_Cls)
    with None Cons.IH [of "x # c"] show ?thesis by simp
  next
    case (Some m)
    then have "p x" using match_here_Cls [of p c "x # xs"] by auto
    with Some show ?thesis by simp
  qed
qed

lemma delimiter_found:
  "re_search delimiter_re body \<noteq> None \<longleftrightarrow> (\<exists>x \<in> set body. delimiter_class x)"
  unfolding re_search_def delimiter_re_def by (rule search_from_Cls)

text \<open>A greedy repetition takes the whole run when the rest of the pattern accepts it.\<close>

lemma try_down_first:
  "lo \<le> n \<Longrightarrow> k (advance n st) = Some m \<Longrightarrow> try_down k st lo n = Some m"
  by (cases n) (auto simp: advance_def split: prod.splits)

lemma rmatch_Seq_fun: "rmatch (Seq a b) k = rmatch a (rmatch b k)"
  by (rule ext) simp

lemma rmatch_Eps_fun: "rmatch Eps k = k"
  by (rule ext) simp

lemma advance_run:
  "advance (run_length p (c, r, g)) (c, r, g) = (rev (takeWhile p r) @ c, dropWhile p r, g)"
  by (simp add: advance_def run_length_def takeWhile_eq_take [symmetric]
      dropWhile_eq_drop [symmetric])

lemma word_after_advance_run:
  "\<not> word_after (advance (run_length is_word (c, r, g)) (c, r, g))"
proof (cases "dropWhile is_word r")
  case Nil
  then show ?thesis by (simp only: advance_run word_after_def) simp
next
  case (Cons a as)
  then have "\<not> is_word a" using hd_dropWhile [of is_word r] by auto
  with Cons show ?thesis by (simp only: advance_run word_after_def) simp
qed

lemma word_before_advance_run:
  assumes "r \<noteq> []" and "is_word (hd r)"
  shows "word_before (advance (run_length is_word (c, r, g)) (c, r, g))"
proof -
  from assms obtain x xs where r: "r = x # xs" and x: "is_word x" by (cases r) auto
  then have ne: "takeWhile is_word r \<noteq> []" by simp
  then have "last (takeWhile is_word r) \<in> set (takeWhile is_word r)" by (rule last_in_set)
  then have "is_word (last (takeWhile is_word r))" by (auto dest: set_takeWhileD)
  then have "is_word (hd (rev (takeWhile is_word r)))" by (simp only: hd_rev)
  moreover from ne obtain y ys where "rev (takeWhile is_word r) = y # ys"
    by (cases "rev (takeWhile is_word r)") auto
  ultimately show ?thesis by (simp only: advance_run word_before_def) simp
qed

text \<open>\<open>\b\w+\b\<close> matches at a position exactly when a word starts there, and then it
  matches the whole word.\<close>

lemma match_here_word_re:
  "match_here word_re c r =
     (if \<not> word_before (c, r, []) \<and> word_after (c, r, [])
      then Some \<lparr>pre = rev c, matched = takeWhile is_word r, post = dropWhile is_word r, groups = []\<rparr>
      else None)"
proof (cases "\<not> word_before (c, r, []) \<and> word_after (c, r, [])")
  case False
  have "rmatch (Rep 1 is_word) k (c, r, []) = None" if "\<not> word_after (c, r, [])" for k
  proof -
    from that have "run_length is_word (c, r, []) = 0"
      by (cases r) (auto simp: word_after_def run_length_def)
    then show ?thesis by simp
  qed
  with False show ?thesis
    by (auto simp: match_here_def word_re_def seqs_def)
next
  case True
  then obtain x xs where r: "r = x # xs" and x: "is_word x"
    by (cases r) (auto simp: word_after_def)
  let ?n = "run_length is_word (c, r, [])"
  let ?st = "advance ?n (c, r, [])"
  have n: "1 \<le> ?n" using r x by (simp add: run_length_def)
  have wb: "word_before ?st" using word_before_advance_run [of r c "[]"] r x by simp
  have wa: "\<not> word_after ?st" by (rule word_after_advance_run)
  have "rmatch Wordb (rmatch Eps Some) ?st = Some ?st" using wb wa by simp
  then have "try_down (rmatch Wordb (rmatch Eps Some)) (c, r, []) 1 ?n = Some ?st"
    using n by (rule try_down_first [rotated])
  then have "rmatch word_re Some (c, r, []) = Some ?st"
    using True by (simp add: word_re_def seqs_def rmatch_Seq_fun rmatch_Eps_fun)
  moreover have "?st = (rev (takeWhile is_word r) @ c, dropWhile is_word r, [])"
    by (rule advance_run)
  ultimately show ?thesis using True by (simp add: match_here_def)
qed

lemma search_from_word_re:
  "search_from word_re c r = Some m \<Longrightarrow>
     matched m \<noteq> [] \<and> (\<forall>x \<in> set (matched m). is_word x) \<and> length (post m) < length r"
proof (induction r arbitrary: c)
  case Nil
  then show ?case by (simp add: match_here_word_re word_after_def)
next
  case (Cons x xs)
  show ?case
  proof (cases "match_here word_re c (x # xs)")
    case None
    with Cons.prems have "search_from word_re (x # c) xs = Some m" by simp
    from Cons.IH [OF this] show ?thesis by auto
  next
    case (Some m')
    with Cons.prems have mm: "m' = m" by simp
    from Some have w: "is_word x"
      by (auto simp: match_here_word_re word_after_def split: if_splits)
    from Some mm have "matched m = takeWhile is_word (x # xs)" "post m = dropWhile is_word (x # xs)"
      by (auto simp: match_here_word_re split: if_splits)
    with w show ?thesis
      using length_dropWhile_le [of is_word xs] by (auto dest: set_takeWhileD)
  qed
qed

lemma findall_word_tokens:
  "re = word_re \<Longrightarrow> t \<in> set (findall_from re c r) \<Longrightarrow> t \<noteq> [] \<and> (\<forall>x \<in> set t. is_word x)"
proof (induction re c r rule: findall_from.induct)
  case (1 re c r)
  show ?case
  proof (cases "search_from re c r")
    case None
    have "findall_from re c r = []" by (subst findall_from.simps) (simp add: None)
    with "1.prems"(2) show ?thesis by simp
  next
    case (Some m)
    have s: "matched m \<noteq> [] \<and> (\<forall>x \<in> set (matched m). is_word x) \<and> length (post m) < length r"
      using Some "1.prems"(1) search_from_word_re by blast
    then have lt: "length (post m) < length r" by simp
    have "findall_from re c r
          = matched m # findall_from re (rev (matched m) @ rev (pre m)) (post m)"
      by (subst findall_from.simps) (simp add: Some lt)
    with "1.prems"(2)
    have "t = matched m \<or> t \<in> set (findall_from re (rev (matched m) @ rev (pre m)) (post m))"
      by simp
    then show ?thesis
    proof
      assume "t = matched m"
      with s show ?thesis by simp
    next
      assume "t \<in> set (findall_from re (rev (matched m) @ rev (pre m)) (post m))"
      with "1.IH" [OF Some lt "1.prems"(1)] show ?thesis by simp
    qed
  qed
qed

text \<open>Every token of \<open>re.findall(r'\b\w+\b', s)\<close> is a non-empty run of word characters.\<close>

lemma word_tokens: "t \<in> set (re_findall word_re s) \<Longrightarrow> t \<noteq> [] \<and> (\<forall>x \<in> set t. is_word x)"
  unfolding re_findall_def by (rule findall_word_tokens) simp

text \<open>The matcher on sample texts; Python's \<open>re\<close> gives the same results.\<close>

lemma findall_example:
  "re_findall word_re ''python, javascript, aws, node.js''
   = [''python'', ''javascript'', ''aws'', ''node'', ''js'']"
  by code_simp

lemma experience_re_examples:
  "map_option (\<lambda>m. (matched m, group m 1, group m 2)) (re_search experience_re ''5-8 years'')
     = Some (''5-8 years'', Some ''5'', Some ''8'')"
  "map_option (\<lambda>m. (matched m, group m 1, group m 2)) (re_search experience_re ''at least 3 years of'')
     = Some (''3 years'', Some ''3'', None)"
  "map_option (\<lambda>m. (matched m, group m 1, group m 2)) (re_search experience_re ''1-2-3 years'')
     = Some (''2-3 years'', Some ''2'', Some ''3'')"
  "re_search experience_re ''senior'' = None"
  by code_simp+

lemma contact_example:
  "extract_contact_info
     ''mail me at john.doe@example.co.uk or +971 50 123 4567 linkedin.com/in/john-doe-1 ok''
   = \<lparr>email = Some ''john.doe@example.co.uk'', phone = Some ''+971 50 123 4567'',
      linkedin = Some ''linkedin.com/in/john-doe-1''\<rparr>"
  by code_simp

lemma section_example:
  "section_body (map section_re [''experience''])
     (''Experience:'' @ newline # ''Senior Engineer at X'' @ newline # ''did things''
        @ newline # newline # ''Lead dev'' @ newline # newline # ''Education: BSc'')
   = Some (''Senior Engineer at X'' @ newline # ''did things'')"
  by code_simp

section \<open>The catalog\<close>

lemma init_default: "init None = Inr default_matcher \<and> length load_default_jobs = 10"
  by (simp add: init_def default_matcher_def load_default_jobs_def)

lemma default_rows: "jobs_data default_matcher = Some (prepare_jobs_data load_default_jobs)"
  by (simp add: default_matcher_def)

lemma length_default_rows: "length (prepare_jobs_data load_default_jobs) = 10"
  by (simp add: prepare_jobs_data_def load_default_jobs_def)

text \<open>
  C1.  Constructing the matcher with a supplied catalog is claimed to succeed and to keep
  exactly that catalog.  The constructor tests the supplied table for truth in
  \<open>jobs_data or self._load_default_jobs()\<close>, which raises ValueError for every
  DataFrame: no supplied catalog is ever installed.  Only the construction without a
  catalog succeeds (\<open>init_default\<close>: the built-in table of ten rows).
\<close>

theorem init_supplied_catalog_raises: "init (Some catalog) = Inl ValueError"
  by (simp add: init_def)

section \<open>Factor scores and the total score\<close>

lemma count_in_le: "count_in ks t \<le> length ks"
  by (simp add: count_in_def)

lemma ratio_unit: "m \<le> n \<Longrightarrow> 0 \<le> ratio m n \<and> ratio m n \<le> 1"
  by (cases "n = 0") (simp_all add: ratio_def divide_le_eq_1)

lemma keyword_score_range:
  "0 \<le> calculate_keyword_score r j \<and> calculate_keyword_score r j \<le> 1"
  unfolding calculate_keyword_score_def Let_def using ratio_unit [OF count_in_le] by simp

lemma title_match_range: "0 \<le> calculate_title_match r t \<and> calculate_title_match r t \<le> 1"
  unfolding calculate_title_match_def Let_def using ratio_unit [OF count_in_le] by simp

lemma skills_match_range: "0 \<le> calculate_skills_match r q \<and> calculate_skills_match r q \<le> 1"
  unfolding calculate_skills_match_def Let_def using ratio_unit [OF count_in_le] by simp

lemma experience_match_values:
  "calculate_experience_match r e =
     (if re_search experience_re (lower e) = None then 1 / 2
      else if has_experience r then 4 / 5 else 0)"
  by (simp add: calculate_experience_match_def Let_def split: option.splits)

lemma experience_match_range:
  "0 \<le> calculate_experience_match r e \<and> calculate_experience_match r e \<le> 1"
  by (simp add: experience_match_values)


text \<open>The clamp never bites: the weighted sum is in \<open>[0, 1]\<close> already.\<close>

lemma job_match_score_unclamped:
  "calculate_job_match_score r j =
     4 / 10 * calculate_keyword_score r j + 2 / 10 * calculate_title_match r (title j)
       + 25 / 100 * calculate_skills_match r (requirements j)
       + 15 / 100 * calculate_experience_match r (experience j)"
proof -
  let ?k = "calculate_keyword_score r j" and ?t = "calculate_title_match r (title j)"
  let ?s = "calculate_skills_match r (requirements j)"
  let ?e = "calculate_experience_match r (experience j)"
  have b: "0 \<le> ?k" "?k \<le> 1" "0 \<le> ?t" "?t \<le> 1" "0 \<le> ?s" "?s \<le> 1" "0 \<le> ?e" "?e \<le> 1"
    using keyword_score_range [of r j] title_match_range [of r "title j"]
      skills_match_range [of r "requirements j"] experience_match_range [of r "experience j"]
    by simp_all
  have "0 \<le> 4 / 10 * ?k + 2 / 10 * ?t + 25 / 100 * ?s + 15 / 100 * ?e" using b by simp
  moreover have "4 / 10 * ?k + 2 / 10 * ?t + 25 / 100 * ?s + 15 / 100 * ?e \<le> 1" using b by simp
  ultimately show ?thesis
    by (simp add: calculate_job_match_score_def Let_def algebra_simps)
qed

section \<open>Ranking\<close>











section \<open>The keyword factor\<close>

lemma length_filter_count_list:
  "length (filter P xs) = (\<Sum>x \<in> {x \<in> set xs. P x}. count_list xs x)"
proof -
  have "length (filter P xs) = sum (count_list (filter P xs)) (set (filter P xs))"
    by (rule sum_count_set [symmetric]) simp_all
  also have "\<dots> = sum (count_list xs) (set (filter P xs))"
  proof (rule sum.cong)
    fix x assume "x \<in> set (filter P xs)"
    then have "P x" by simp
    then show "count_list (filter P xs) x = count_list xs x"
      by (induction xs) auto
  qed simp
  also have "set (filter P xs) = {x \<in> set xs. P x}" by auto
  finally show ?thesis .
qed

text \<open>
  C5, as amended.  The keyword factor is the number of word tokens of the lower-cased
  requirements text, every occurrence counted, that occur in the lower-cased resume text,
  divided by the number of tokens, and 0 when there is no token.  In terms of distinct
  tokens: each distinct token that occurs in the resume text counts as often as it stands
  in the requirements.
\<close>

theorem keyword_score_counts_occurrences:
  "calculate_keyword_score r j =
     (let tokens = re_findall word_re (lower (requirements j)) in
      if tokens = [] then 0
      else ratio (\<Sum>k \<in> {k \<in> set tokens. contains k (lower r)}. count_list tokens k)
                 (length tokens))"
  by (simp add: calculate_keyword_score_def Let_def count_in_def length_filter_count_list)

text \<open>
  C5 as stated fails where a token is repeated.  The requirements of the fourth built-in
  posting hold ten tokens, \<open>financial\<close> twice; against the resume text \<open>financial\<close>
  the code gives 2/10, the count of distinct matching tokens gives 1/10.
\<close>

theorem keyword_score_distinct_counterexample:
  "calculate_keyword_score ''financial'' default_job_3 = 1 / 5
   \<and> keyword_score_spec ''financial'' default_job_3 = 1 / 10"
  by code_simp

section \<open>The experience factor\<close>


text \<open>Two postings whose year ranges do not overlap score every resume alike.\<close>

lemma experience_match_ignores_years:
  "calculate_experience_match r ''1 year'' = calculate_experience_match r ''20-30 years''"
proof -
  have "re_search experience_re (lower ''1 year'') \<noteq> None" by code_simp
  moreover have "re_search experience_re (lower ''20-30 years'') \<noteq> None" by code_simp
  ultimately show ?thesis by (auto simp: experience_match_values)
qed

text \<open>Every built-in posting has an experience text the pattern is found in, so on the
  built-in catalog the factor is 0 or 0.8.\<close>

lemma default_experience_parses:
  "list_all (\<lambda>j. re_search experience_re (lower (experience j)) \<noteq> None) load_default_jobs"
  by code_simp

section \<open>Catalog operations\<close>

lemma get_job_details_past_end:
  "jobs_data self = Some rows \<Longrightarrow> int (length rows) \<le> jid \<Longrightarrow> get_job_details self jid = Inr None"
  by (simp add: get_job_details_def)

lemma get_job_details_before_start:
  "jobs_data self = Some rows \<Longrightarrow> jid < - int (length rows)
     \<Longrightarrow> get_job_details self jid = Inl IndexError"
  by (simp add: get_job_details_def iloc_def)

lemma get_job_details_from_end:
  "jobs_data self = Some rows \<Longrightarrow> - int (length rows) \<le> jid \<Longrightarrow> jid < 0
     \<Longrightarrow> get_job_details self jid = Inr (Some (posting (rows ! nat (int (length rows) + jid))))"
  by (simp add: get_job_details_def iloc_def)

lemma get_jobs_by_industry_unknown:
  "jobs_data self = Some rows \<Longrightarrow> \<forall>r \<in> set rows. lower (industry (posting r)) \<noteq> lower ind
     \<Longrightarrow> get_jobs_by_industry self ind = []"
  by (simp add: get_jobs_by_industry_def)

lemma empty_catalog_operations:
  "jobs_data self = Some [] \<Longrightarrow>
     match_resume_to_jobs self rd n = [] \<and> search_jobs self q n = []
     \<and> get_jobs_by_industry self ind = []"
  by (simp add: match_resume_to_jobs_def search_jobs_def get_jobs_by_industry_def)

text \<open>
  C7.  The lookup is claimed never to raise and to return an empty record for every job
  id out of range.  \<open>get_job_details\<close> guards the upper end only
  (\<open>job_id >= len(self.jobs_data)\<close>); a negative id goes on to \<open>iloc\<close>.  On the
  built-in catalog of ten rows the id \<open>-11\<close> raises IndexError.  The other parts of the
  claim hold: \<open>get_job_details_past_end\<close>, \<open>get_jobs_by_industry_unknown\<close>,
  \<open>empty_catalog_operations\<close>.
\<close>

theorem get_job_details_negative_id_raises:
  "get_job_details default_matcher (- 11) = Inl IndexError"
  by (simp add: get_job_details_def default_rows length_default_rows iloc_def)

section \<open>The name\<close>

lemma lower_name_keywords: "map lower name_keywords = name_keywords"
  by code_simp

lemma name_keywords_lowered:
  "list_ex (\<lambda>keyword. contains (lower keyword) s) name_keywords
   = list_ex (\<lambda>keyword. contains keyword s) name_keywords"
  using lower_name_keywords by (metis (no_types) list_ex_iff list.set_map image_iff)

lemma first_name_filter:
  "first_name ls = (case filter name_line (map strip ls) of [] \<Rightarrow> [] | l # _ \<Rightarrow> l)"
proof (induction ls)
  case Nil
  then show ?case by simp
next
  case (Cons l ls)
  have q: "name_line (strip l) \<longleftrightarrow>
             strip l \<noteq> [] \<and> length (split_ws (strip l)) \<le> 4
             \<and> \<not> list_ex (\<lambda>keyword. contains (lower keyword) (lower (strip l))) name_keywords"
    unfolding name_line_def name_keywords_lowered using stripped_words [of l] by blast
  show ?case
  proof (cases "name_line (strip l)")
    case True
    with q show ?thesis by (simp add: Let_def)
  next
    case False
    with q Cons.IH show ?thesis by (auto simp: Let_def)
  qed
qed

text \<open>
  C8, as amended.  Name extraction scans the first five lines of the text it is given
  (lines are separated by the newline character).  A line qualifies when, stripped of
  the white space around it, it has at least one and at most four words and none of the
  seven listed words occurs in its lower-cased text.  The first qualifying line, stripped,
  is the name; the name is empty when no line qualifies.
\<close>

theorem extract_name_first_name_line:
  "extract_name text =
     (case filter name_line (map strip (take 5 (split_char newline text))) of
        [] \<Rightarrow> [] | l # _ \<Rightarrow> l)"
  by (simp add: extract_name_def first_name_filter)

text \<open>
  C8 as stated fails on a blank line.  A blank line has no word, so at most four, and
  none of the listed words: by the stated rule it qualifies and the name is empty.  The
  code passes over it and takes the next line.
\<close>

theorem extract_name_blank_line_counterexample:
  "extract_name (newline # ''John Doe'') = ''John Doe''
   \<and> extract_name_spec (newline # ''John Doe'') = []"
  by code_simp

text \<open>
  C10.  The cleaned text holds no newline, so it is one line; the name of the profile
  is therefore either empty or the whole cleaned text, and it is not empty only if the
  cleaned text has at most four words and holds none of the seven listed words.
\<close>

theorem cleaned_text_one_line_name:
  "split_char newline (clean_text t) = [clean_text t]
   \<and> (name (extract_structure p t) \<noteq> [] \<longrightarrow>
        name (extract_structure p t) = clean_text t
        \<and> length (split_ws (clean_text t)) \<le> 4
        \<and> \<not> list_ex (\<lambda>keyword. contains keyword (lower (clean_text t))) name_keywords)"
proof -
  have one: "split_char newline (clean_text t) = [clean_text t]"
    by (rule split_char_absent) (rule clean_text_no_newline)
  have nm: "name (extract_structure p t) = first_name [clean_text t]"
    by (simp add: extract_structure_def Let_def extract_name_def one)
  show ?thesis
    unfolding nm using one
    by (auto simp: Let_def clean_text_stripped name_keywords_lowered split: if_splits)
qed

text \<open>C10, the theorem at the text \<open>John Doe\<close>, whose name is not empty.\<close>

theorem cleaned_text_one_line_name_witness:
  "name (extract_structure no_models ''John Doe'') \<noteq> []
   \<and> name (extract_structure no_models ''John Doe'') = clean_text ''John Doe''
   \<and> length (split_ws (clean_text ''John Doe'')) \<le> 4"
proof -
  have "extract_name (clean_text ''John Doe'') \<noteq> []" by code_simp
  then have "name (extract_structure no_models ''John Doe'') \<noteq> []"
    by (simp add: extract_structure_def Let_def)
  then show ?thesis using cleaned_text_one_line_name [of "''John Doe''" no_models] by blast
qed

section \<open>The list tokenizer\<close>

lemma length_parse_skills_list: "length (parse_skills_list body) \<le> 20"
  by (simp add: parse_skills_list_def Let_def)


text \<open>The classes are alternatives: a body with a comma is split at commas, newlines and
  semicolons only, and one without at \<open>and\<close> only.\<close>

lemma parse_skills_list_examples:
  "parse_skills_list ''Python, JavaScript; React'' = [''Python'', ''JavaScript'', ''React'']"
  "parse_skills_list ''English and Arabic & go'' = [''English'', ''Arabic & go'']"
  "parse_skills_list ''Go, C and Rust'' = [''Go'', ''C and Rust'']"
  "parse_skills_list ''C go Python'' = [''Python'']"
  by code_simp+


section \<open>Determinism\<close>





end

